theory Spec2Isabelle
  imports Main "HOL-Library.Sublist"
begin

section \<open>PathService of vscode-rust (src/services/pathService.ts)\<close>

text \<open>
  The module resolves the directory in which cargo, racer, rustfmt and rustsym are run.
  \<open>PathService.cwd\<close> is a chain of three promises (active text editor, previous cwd,
  workspace root) over one static field, \<open>previousCwd\<close>. The embedding keeps the
  methods and their names; a promise is a state-passing computation that ends resolved
  (\<open>Inr\<close>) or rejected (\<open>Inl\<close>).
\<close>

subsection \<open>Strings and errors\<close>

text \<open>
  A JavaScript string is a \<open>string\<close>: the list of its code units, each below 256.
  A value that is a string or \<open>undefined\<close> (or \<open>null\<close>) is a \<open>string option\<close>.
  \<open>new Error(msg)\<close> is \<open>Error msg\<close>; \<open>TypeError\<close> is the error the runtime throws
  when a value of the wrong type is used: \<open>path.join\<close> on an argument that is not a
  string, a method call on \<open>null\<close>.
\<close>

datatype error = Error string | TypeError

text \<open>
  \<open>ToString\<close>, the conversion \<open>startsWith\<close> applies to its argument: \<open>undefined\<close>
  becomes the string \<open>undefined\<close>.
\<close>

definition ToString :: "string option \<Rightarrow> string" where
  "ToString v = (case v of None \<Rightarrow> ''undefined'' | Some s \<Rightarrow> s)"

text \<open>\<open>s.startsWith(search)\<close>, with the default position 0.\<close>

definition startsWith :: "string \<Rightarrow> string \<Rightarrow> bool" where
  "startsWith s search = (take (length search) s = search)"

text \<open>
  \<open>String.prototype.trim\<close> removes white space and line terminators at both ends. Among
  the code units below 256 these are TAB, LF, VT, FF, CR, SPACE and NBSP.
\<close>

definition is_whitespace :: "char \<Rightarrow> bool" where
  "is_whitespace c =
     (c \<in> set [CHR 0x09, CHR 0x0A, CHR 0x0B, CHR 0x0C, CHR 0x0D, CHR 0x20, CHR 0xA0])"

definition trim :: "string \<Rightarrow> string" where
  "trim s = rev (dropWhile is_whitespace (rev (dropWhile is_whitespace s)))"

subsection \<open>The host: editor, workspace, file system, path module, child processes\<close>

text \<open>
  What the module imports (\<open>vscode\<close>, \<open>find-up\<close>, \<open>fs\<close>, \<open>path\<close>,
  \<open>child_process\<close>) is not part of it; each call it makes is a field of the host.

  A spawned process is what its handlers see: the \<open>'error'\<close> and \<open>'exit'\<close> events it
  emits, in order (an exit code is a number, or null after a signal), and what
  \<open>stdout.read()\<close> returns: the buffered output, or null when nothing is buffered.
\<close>

datatype child_event = Ev_error | Ev_exit "int option"

record child_process =
  emitted :: "child_event list"
  stdout_read :: "string option"

record host =
  activeTextEditor :: "string option"
    \<comment> \<open>\<open>vscode.window.activeTextEditor\<close>: the document's \<open>fileName\<close>, or undefined\<close>
  rootPath :: "string option"
    \<comment> \<open>\<open>vscode.workspace.rootPath\<close>: undefined when no folder is open\<close>
  findUp :: "string \<Rightarrow> string \<Rightarrow> string option"
    \<comment> \<open>\<open>findUp(name, {cwd})\<close>: the path of the file found, or null\<close>
  fs_access :: "string \<Rightarrow> error option"
    \<comment> \<open>\<open>fs.access(path, callback)\<close>: the error passed to the callback, or none\<close>
  path_join :: "string \<Rightarrow> string \<Rightarrow> string"
    \<comment> \<open>\<open>path.join\<close> on two strings\<close>
  path_dirname :: "string \<Rightarrow> string"
  process_cwd :: string
  cp_spawn :: "string \<Rightarrow> string list \<Rightarrow> string \<Rightarrow> child_process"
    \<comment> \<open>\<open>cp.spawn(command, args, {cwd})\<close>\<close>

text \<open>
  \<open>path.join\<close> checks its arguments first and throws a \<open>TypeError\<close> on one that is
  not a string (\<open>Inl\<close> is the exception thrown).
\<close>

definition path_join_js :: "host \<Rightarrow> string option \<Rightarrow> string \<Rightarrow> error + string" where
  "path_join_js h dir name =
     (case dir of None \<Rightarrow> Inl TypeError | Some d \<Rightarrow> Inr (path_join h d name))"

subsection \<open>The state: \<open>previousCwd\<close> and the log of what was done\<close>

text \<open>
  \<open>previousCwd\<close> is the static field (\<open>None\<close> is undefined). \<open>trace\<close> records, in
  order, every entry into a strategy method, every call of the host that reads the file
  system or starts a process, every assignment to \<open>previousCwd\<close>, and every exception
  that leaves an event handler uncaught; it is what the statements about "attempted" and
  "performs only" are about.
\<close>

datatype event =
    Call string
  | FindUp string string
  | FsAccess string
  | Spawn string "string list" string
  | Assign_previousCwd string
  | Uncaught error

record state =
  previousCwd :: "string option"
  trace :: "event list"

definition emit :: "event \<Rightarrow> state \<Rightarrow> state" where
  "emit ev s = s\<lparr>trace := trace s @ [ev]\<rparr>"

text \<open>
  The events a run added; the method entries and the assignments among some events.
\<close>

definition new_events :: "state \<Rightarrow> state \<Rightarrow> event list" where
  "new_events s s' = drop (length (trace s)) (trace s')"

fun calls :: "event list \<Rightarrow> string list" where
  "calls [] = []"
| "calls (Call f # evs) = f # calls evs"
| "calls (ev # evs) = calls evs"

fun assignments :: "event list \<Rightarrow> string list" where
  "assignments [] = []"
| "assignments (Assign_previousCwd d # evs) = d # assignments evs"
| "assignments (ev # evs) = assignments evs"

subsection \<open>Promises\<close>

text \<open>
  One caller at a time: a promise of the \<open>cwd\<close> chain is run to its end before the next
  handler starts, so it is a function from the state to its settlement and the new state.
  \<open>p.then(f)\<close> runs \<open>f\<close> on the value of a resolved \<open>p\<close> and passes a rejection on;
  \<open>p.catch(f)\<close> runs \<open>f\<close> on the reason of a rejected \<open>p\<close> and passes a value on.
  A handler that throws rejects the promise that \<open>then\<close> or \<open>catch\<close> returned, with
  the exception as the reason: a method that throws inside a handler is therefore
  modelled as returning a promise rejected with what it throws.
\<close>

type_synonym 'a promise = "state \<Rightarrow> (error + 'a) \<times> state"

definition Promise_resolve :: "'a \<Rightarrow> 'a promise" where
  "Promise_resolve v = (\<lambda>s. (Inr v, s))"

definition Promise_reject :: "error \<Rightarrow> 'a promise" where
  "Promise_reject e = (\<lambda>s. (Inl e, s))"

definition promise_then :: "'a promise \<Rightarrow> ('a \<Rightarrow> 'b promise) \<Rightarrow> 'b promise" where
  "promise_then p f =
     (\<lambda>s. case p s of (Inl e, s') \<Rightarrow> (Inl e, s') | (Inr v, s') \<Rightarrow> f v s')"

definition promise_catch :: "'a promise \<Rightarrow> (error \<Rightarrow> 'a promise) \<Rightarrow> 'a promise" where
  "promise_catch p f =
     (\<lambda>s. case p s of (Inl e, s') \<Rightarrow> f e s' | (Inr v, s') \<Rightarrow> (Inr v, s'))"

subsection \<open>\<open>checkPathExists\<close>\<close>

text \<open>
  The executor calls \<open>fs.access\<close>; the callback resolves with \<open>!e\<close>. The promise has no
  \<open>reject\<close> parameter at all.
\<close>

definition checkPathExists :: "host \<Rightarrow> string \<Rightarrow> bool promise" where
  "checkPathExists h path =
     (\<lambda>s. let e = fs_access h path;
              pathExists = (e = None)
          in Promise_resolve pathExists (emit (FsAccess path) s))"

subsection \<open>The three strategies\<close>

definition findCargoTomlUpToWorkspace :: "host \<Rightarrow> string \<Rightarrow> string promise" where
  "findCargoTomlUpToWorkspace h cwd =
     promise_then
       (\<lambda>s. Promise_resolve (findUp h ''Cargo.toml'' cwd) (emit (FindUp ''Cargo.toml'' cwd) s))
       (\<lambda>cargoTomlDirPath.
          case cargoTomlDirPath of
            None \<Rightarrow> Promise_reject (Error ''Cargo.toml hasn't been found'')
          | Some p \<Rightarrow>
              if \<not> startsWith p (ToString (rootPath h))
              then Promise_reject (Error ''Cargo.toml hasn't been found within the workspace'')
              else Promise_resolve (path_dirname h p))"

definition getCwdFromActiveTextEditor :: "host \<Rightarrow> string promise" where
  "getCwdFromActiveTextEditor h =
     (\<lambda>s0. let s = emit (Call ''getCwdFromActiveTextEditor'') s0 in
        case activeTextEditor h of
          None \<Rightarrow> Promise_reject (Error ''No active document'') s
        | Some fileName \<Rightarrow>
            if \<not> startsWith fileName (ToString (rootPath h))
            then Promise_reject (Error ''Current document not in the workspace'') s
            else findCargoTomlUpToWorkspace h (path_dirname h fileName) s)"

text \<open>
  \<open>getPreviousCwd\<close> joins \<open>previousCwd\<close> only after the test that it is defined. Its
  callback reads the field again and resolves with what it holds then.
\<close>

definition getPreviousCwd :: "host \<Rightarrow> error \<Rightarrow> string option promise" where
  "getPreviousCwd h err =
     (\<lambda>s0. let s = emit (Call ''getPreviousCwd'') s0 in
        case previousCwd s of
          None \<Rightarrow> Promise_reject err s
        | Some prev \<Rightarrow>
            let pathToCargoTomlInPreviousCwd = path_join h prev ''Cargo.toml'' in
            promise_then (checkPathExists h pathToCargoTomlInPreviousCwd)
              (\<lambda>exists s'. if exists then Promise_resolve (previousCwd s') s'
                           else Promise_reject err s') s)"

text \<open>
  \<open>checkWorkspaceCanBeUsedAsCwd\<close> joins \<open>vscode.workspace.rootPath\<close> as it is. When
  the root is undefined \<open>path.join\<close> throws before any promise is made.
\<close>

definition checkWorkspaceCanBeUsedAsCwd :: "host \<Rightarrow> bool promise" where
  "checkWorkspaceCanBeUsedAsCwd h =
     (\<lambda>s0. let s = emit (Call ''checkWorkspaceCanBeUsedAsCwd'') s0 in
        case path_join_js h (rootPath h) ''Cargo.toml'' of
          Inl thrown \<Rightarrow> Promise_reject thrown s
        | Inr filePath \<Rightarrow> checkPathExists h filePath s)"

subsection \<open>\<open>cwd\<close>\<close>

text \<open>
  The value of the promise is a string or \<open>undefined\<close>: the second and third strategy
  resolve with the field \<open>previousCwd\<close> and with \<open>vscode.workspace.rootPath\<close> as they
  are.
\<close>

definition cwd :: "host \<Rightarrow> string option promise" where
  "cwd h =
     promise_catch
       (promise_catch
          (promise_then (getCwdFromActiveTextEditor h)
             (\<lambda>newCwd s.
                Promise_resolve (Some newCwd)
                  (emit (Assign_previousCwd newCwd) (s\<lparr>previousCwd := Some newCwd\<rparr>))))
          (\<lambda>err. getPreviousCwd h err))
       (\<lambda>err. promise_then (checkWorkspaceCanBeUsedAsCwd h)
                 (\<lambda>canBeUsed. if canBeUsed then Promise_resolve (rootPath h)
                              else Promise_reject err))"

subsection \<open>\<open>getRustcSysroot\<close>\<close>

text \<open>
  This promise is settled by event handlers, so it can stay pending. \<open>reject()\<close> has no
  reason. A settled promise ignores every later \<open>resolve\<close> and \<open>reject\<close>; the handlers
  are registered with \<open>on\<close> and run for each event the process emits.

  A handler returns the new settlement, or throws (\<open>Inl\<close>). The \<open>'exit'\<close> handler
  calls \<open>toString\<close> on what \<open>stdout.read()\<close> returned: on null this throws, before
  \<open>resolve\<close> is reached. An exception thrown by a handler is not caught by the promise;
  it leaves the settlement as it was.
\<close>

datatype 'a settlement = Pending | Resolved 'a | Rejected

definition settle :: "'a settlement \<Rightarrow> 'a settlement \<Rightarrow> 'a settlement" where
  "settle now outcome = (if now = Pending then outcome else now)"

definition on_error :: "string settlement \<Rightarrow> error + string settlement" where
  "on_error now = Inr (settle now Rejected)"

definition on_exit ::
  "child_process \<Rightarrow> int option \<Rightarrow> string settlement \<Rightarrow> error + string settlement" where
  "on_exit spawnedProcess code now =
     (if code = Some 0
      then (case stdout_read spawnedProcess of
              None \<Rightarrow> Inl TypeError
            | Some buffer \<Rightarrow> (let sysroot = trim buffer in Inr (settle now (Resolved sysroot))))
      else Inr (settle now Rejected))"

fun handle ::
  "child_process \<Rightarrow> child_event \<Rightarrow> string settlement \<Rightarrow> error + string settlement" where
  "handle spawnedProcess Ev_error now = on_error now"
| "handle spawnedProcess (Ev_exit code) now = on_exit spawnedProcess code now"

definition deliver ::
  "child_process \<Rightarrow> child_event \<Rightarrow> string settlement \<times> state \<Rightarrow> string settlement \<times> state" where
  "deliver spawnedProcess ev run =
     (case handle spawnedProcess ev (fst run) of
        Inl thrown \<Rightarrow> (fst run, emit (Uncaught thrown) (snd run))
      | Inr now \<Rightarrow> (now, snd run))"

definition getRustcSysroot :: "host \<Rightarrow> state \<Rightarrow> string settlement \<times> state" where
  "getRustcSysroot h s =
     (let options_cwd = process_cwd h;
          spawnedProcess = cp_spawn h ''rustc'' [''--print'', ''sysroot''] options_cwd;
          s' = emit (Spawn ''rustc'' [''--print'', ''sysroot''] options_cwd) s
      in fold (deliver spawnedProcess) (emitted spawnedProcess) (Pending, s'))"

subsection \<open>A concrete host for the instances\<close>

text \<open>
  The instances below run the methods on a small host: a file system given by the list of
  its files, slash-separated paths without \<open>.\<close> and \<open>..\<close> segments, and an upward
  search that tries each directory from the start to the root. A host without a
  workspace root is a window in which no folder is open.
\<close>

definition posix_join :: "string \<Rightarrow> string \<Rightarrow> string" where
  "posix_join dir name = (if dir \<noteq> [] \<and> last dir = CHR ''/'' then dir @ name else dir @ ''/'' @ name)"

definition posix_dirname :: "string \<Rightarrow> string" where
  "posix_dirname p =
     (let is_slash = (\<lambda>c. c = CHR ''/'');
          r = dropWhile is_slash (dropWhile (\<lambda>c. \<not> is_slash c) (dropWhile is_slash (rev p)))
      in if r = [] then (if p \<noteq> [] \<and> hd p = CHR ''/'' then ''/'' else ''.'') else rev r)"

fun search_up :: "nat \<Rightarrow> string list \<Rightarrow> string \<Rightarrow> string \<Rightarrow> string option" where
  "search_up 0 files name dir = None"
| "search_up (Suc n) files name dir =
     (if posix_join dir name \<in> set files then Some (posix_join dir name)
      else if posix_dirname dir = dir then None
      else search_up n files name (posix_dirname dir))"

definition no_process :: child_process where
  "no_process = \<lparr>emitted = [], stdout_read = None\<rparr>"

definition fs_host :: "string list \<Rightarrow> string option \<Rightarrow> string option \<Rightarrow> host" where
  "fs_host files doc root =
     \<lparr>activeTextEditor = doc,
      rootPath = root,
      findUp = (\<lambda>name dir. search_up (Suc (length dir)) files name dir),
      fs_access = (\<lambda>p. if p \<in> set files then None else Some (Error ''ENOENT'')),
      path_join = posix_join,
      path_dirname = posix_dirname,
      process_cwd = ''/'',
      cp_spawn = (\<lambda>cmd args dir. no_process)\<rparr>"

definition process_host :: "child_process \<Rightarrow> host" where
  "process_host c = (fs_host [] None (Some ''/ws''))\<lparr>cp_spawn := (\<lambda>cmd args dir. c)\<rparr>"

definition initial :: state where
  "initial = \<lparr>previousCwd = None, trace = []\<rparr>"

definition remembering :: "string \<Rightarrow> state" where
  "remembering d = \<lparr>previousCwd = Some d, trace = []\<rparr>"

section \<open>What each method does, in one equation\<close>

text \<open>
  The promise combinators unfold to a finite case tree. The lemmas of this section give,
  for every method, its settlement and its final state; the claims are read off them.
\<close>

lemma emit_simps:
  "trace (emit ev s) = trace s @ [ev]" "previousCwd (emit ev s) = previousCwd s"
  by (simp_all add: emit_def)

lemma checkPathExists_run:
  "checkPathExists h p s = (Inr (fs_access h p = None), emit (FsAccess p) s)"
  by (simp add: checkPathExists_def Promise_resolve_def)

lemma findCargoTomlUpToWorkspace_run:
  "findCargoTomlUpToWorkspace h c s =
     ((case findUp h ''Cargo.toml'' c of
         None \<Rightarrow> Inl (Error ''Cargo.toml hasn't been found'')
       | Some p \<Rightarrow> if startsWith p (ToString (rootPath h)) then Inr (path_dirname h p)
                   else Inl (Error ''Cargo.toml hasn't been found within the workspace'')),
      emit (FindUp ''Cargo.toml'' c) s)"
  by (simp add: findCargoTomlUpToWorkspace_def promise_then_def Promise_resolve_def
      Promise_reject_def split: option.split)

lemma getPreviousCwd_run:
  "getPreviousCwd h err s =
     (case previousCwd s of
        None \<Rightarrow> (Inl err, emit (Call ''getPreviousCwd'') s)
      | Some prev \<Rightarrow>
          (if fs_access h (path_join h prev ''Cargo.toml'') = None then Inr (Some prev) else Inl err,
           emit (FsAccess (path_join h prev ''Cargo.toml'')) (emit (Call ''getPreviousCwd'') s)))"
  by (simp add: getPreviousCwd_def checkPathExists_run promise_then_def Promise_resolve_def
      Promise_reject_def emit_simps Let_def split: option.split)

lemma checkWorkspaceCanBeUsedAsCwd_run:
  "checkWorkspaceCanBeUsedAsCwd h s =
     (case rootPath h of
        None \<Rightarrow> (Inl TypeError, emit (Call ''checkWorkspaceCanBeUsedAsCwd'') s)
      | Some root \<Rightarrow>
          (Inr (fs_access h (path_join h root ''Cargo.toml'') = None),
           emit (FsAccess (path_join h root ''Cargo.toml''))
             (emit (Call ''checkWorkspaceCanBeUsedAsCwd'') s)))"
  by (simp add: checkWorkspaceCanBeUsedAsCwd_def path_join_js_def checkPathExists_run
      Promise_reject_def Let_def split: option.split)

lemma getCwdFromActiveTextEditor_run:
  "getCwdFromActiveTextEditor h s =
     (case activeTextEditor h of
        None \<Rightarrow> (Inl (Error ''No active document''), emit (Call ''getCwdFromActiveTextEditor'') s)
      | Some fileName \<Rightarrow>
          if startsWith fileName (ToString (rootPath h))
          then findCargoTomlUpToWorkspace h (path_dirname h fileName)
                 (emit (Call ''getCwdFromActiveTextEditor'') s)
          else (Inl (Error ''Current document not in the workspace''),
                emit (Call ''getCwdFromActiveTextEditor'') s))"
  by (simp add: getCwdFromActiveTextEditor_def Promise_reject_def Let_def split: option.split)

lemma getCwdFromActiveTextEditor_frame:
  "getCwdFromActiveTextEditor h s = (r, s1) \<Longrightarrow>
     previousCwd s1 = previousCwd s \<and>
     (\<exists>evs. trace s1 = trace s @ Call ''getCwdFromActiveTextEditor'' # evs \<and> calls evs = [] \<and> assignments evs = [])"
  by (auto simp: getCwdFromActiveTextEditor_run findCargoTomlUpToWorkspace_run emit_simps
      split: option.splits if_splits)

lemma getCwdFromActiveTextEditor_result:
  "fst (getCwdFromActiveTextEditor h s) = fst (getCwdFromActiveTextEditor h s')"
  by (simp add: getCwdFromActiveTextEditor_run findCargoTomlUpToWorkspace_run
      split: option.splits)

lemma cwd_run:
  "cwd h s =
     (case getCwdFromActiveTextEditor h s of
        (Inr newCwd, s1) \<Rightarrow>
          (Inr (Some newCwd), emit (Assign_previousCwd newCwd) (s1\<lparr>previousCwd := Some newCwd\<rparr>))
      | (Inl e, s1) \<Rightarrow>
          (case getPreviousCwd h e s1 of
             (Inr prev, s2) \<Rightarrow> (Inr prev, s2)
           | (Inl e', s2) \<Rightarrow>
               (case checkWorkspaceCanBeUsedAsCwd h s2 of
                  (Inr canBeUsed, s3) \<Rightarrow> (if canBeUsed then Inr (rootPath h) else Inl e', s3)
                | (Inl thrown, s3) \<Rightarrow> (Inl thrown, s3))))"
  by (simp add: cwd_def promise_then_def promise_catch_def Promise_resolve_def Promise_reject_def
      split: prod.split sum.split)

lemma calls_append: "calls (xs @ ys) = calls xs @ calls ys"
  by (induction xs rule: calls.induct) simp_all

lemma assignments_append: "assignments (xs @ ys) = assignments xs @ assignments ys"
  by (induction xs rule: assignments.induct) simp_all

section \<open>The claims\<close>

subsection \<open>C1: the order of the strategies\<close>

lemma getPreviousCwd_resolved:
  assumes "fst (getPreviousCwd h err s) = Inr v"
  shows "v = previousCwd s \<and> (\<exists>prev. v = Some prev)"
proof (cases "previousCwd s")
  case None
  with assms show ?thesis
    by (simp add: getPreviousCwd_run)
next
  case (Some prev)
  with assms have "v = Some prev"
    by (simp add: getPreviousCwd_run split: if_splits)
  with Some show ?thesis
    by simp
qed

text \<open>
  Claim C1. Every call of \<open>cwd\<close> attempts the strategies strictly in the order active
  document, remembered root, workspace root; the first one that succeeds gives the
  directory returned, and no later strategy is attempted after a success.

  The four cases are the places where the chain can stop: the first strategy resolves;
  the second resolves; the third is reached and its check resolves; the third is reached
  and throws. In each the settlement and the final state of \<open>cwd\<close> are those of the last
  strategy run (after a success of the first, with \<open>previousCwd\<close> assigned), and the
  method entries logged by the call are exactly the strategies up to that one, in order.
  A strategy that resolves does so with a directory: a defined \<open>previousCwd\<close>, a defined
  workspace root.
\<close>

theorem cwd_strategies_in_order:
  "(getCwdFromActiveTextEditor h s = (Inr d, s1) \<longrightarrow>
      cwd h s = (Inr (Some d), emit (Assign_previousCwd d) (s1\<lparr>previousCwd := Some d\<rparr>)) \<and>
      calls (new_events s (snd (cwd h s))) = [''getCwdFromActiveTextEditor''])
   \<and> (getCwdFromActiveTextEditor h s = (Inl e, s1) \<and> getPreviousCwd h e s1 = (Inr v, s2) \<longrightarrow>
      cwd h s = (Inr v, s2) \<and> (\<exists>prev. v = Some prev) \<and>
      calls (new_events s (snd (cwd h s))) = [''getCwdFromActiveTextEditor'', ''getPreviousCwd''])
   \<and> (getCwdFromActiveTextEditor h s = (Inl e, s1) \<and> getPreviousCwd h e s1 = (Inl e', s2) \<and>
        checkWorkspaceCanBeUsedAsCwd h s2 = (Inr b, s3) \<longrightarrow>
      cwd h s = (if b then Inr (rootPath h) else Inl e', s3) \<and> (\<exists>root. rootPath h = Some root) \<and>
      calls (new_events s (snd (cwd h s))) =
        [''getCwdFromActiveTextEditor'', ''getPreviousCwd'', ''checkWorkspaceCanBeUsedAsCwd''])
   \<and> (getCwdFromActiveTextEditor h s = (Inl e, s1) \<and> getPreviousCwd h e s1 = (Inl e', s2) \<and>
        checkWorkspaceCanBeUsedAsCwd h s2 = (Inl thrown, s3) \<longrightarrow>
      cwd h s = (Inl thrown, s3) \<and>
      calls (new_events s (snd (cwd h s))) =
        [''getCwdFromActiveTextEditor'', ''getPreviousCwd'', ''checkWorkspaceCanBeUsedAsCwd''])"
proof (intro conjI impI)
  assume a: "getCwdFromActiveTextEditor h s = (Inr d, s1)"
  then show "cwd h s = (Inr (Some d), emit (Assign_previousCwd d) (s1\<lparr>previousCwd := Some d\<rparr>))"
    by (simp add: cwd_run)
  from getCwdFromActiveTextEditor_frame [OF a]
  show "calls (new_events s (snd (cwd h s))) = [''getCwdFromActiveTextEditor'']"
    using a by (auto simp: cwd_run emit_simps new_events_def calls_append)
next
  assume a: "getCwdFromActiveTextEditor h s = (Inl e, s1) \<and> getPreviousCwd h e s1 = (Inr v, s2)"
  then show "cwd h s = (Inr v, s2)"
    by (simp add: cwd_run)
  from a have "fst (getPreviousCwd h e s1) = Inr v"
    by simp
  from getPreviousCwd_resolved [OF this] show "\<exists>prev. v = Some prev" ..
  from a getCwdFromActiveTextEditor_frame [of h s "Inl e" s1]
  show "calls (new_events s (snd (cwd h s))) = [''getCwdFromActiveTextEditor'', ''getPreviousCwd'']"
    by (auto simp: cwd_run getPreviousCwd_run emit_simps new_events_def calls_append
        split: option.splits if_splits)
next
  assume a: "getCwdFromActiveTextEditor h s = (Inl e, s1) \<and> getPreviousCwd h e s1 = (Inl e', s2) \<and>
        checkWorkspaceCanBeUsedAsCwd h s2 = (Inr b, s3)"
  then show "cwd h s = (if b then Inr (rootPath h) else Inl e', s3)"
    by (simp add: cwd_run)
  from a show "\<exists>root. rootPath h = Some root"
    by (cases "rootPath h") (simp_all add: checkWorkspaceCanBeUsedAsCwd_run)
  from a getCwdFromActiveTextEditor_frame [of h s "Inl e" s1]
  show "calls (new_events s (snd (cwd h s))) =
        [''getCwdFromActiveTextEditor'', ''getPreviousCwd'', ''checkWorkspaceCanBeUsedAsCwd'']"
    by (auto simp: cwd_run getPreviousCwd_run checkWorkspaceCanBeUsedAsCwd_run emit_simps
        new_events_def calls_append split: option.splits if_splits)
next
  assume a: "getCwdFromActiveTextEditor h s = (Inl e, s1) \<and> getPreviousCwd h e s1 = (Inl e', s2) \<and>
        checkWorkspaceCanBeUsedAsCwd h s2 = (Inl thrown, s3)"
  then show "cwd h s = (Inl thrown, s3)"
    by (simp add: cwd_run)
  from a getCwdFromActiveTextEditor_frame [of h s "Inl e" s1]
  show "calls (new_events s (snd (cwd h s))) =
        [''getCwdFromActiveTextEditor'', ''getPreviousCwd'', ''checkWorkspaceCanBeUsedAsCwd'']"
    by (auto simp: cwd_run getPreviousCwd_run checkWorkspaceCanBeUsedAsCwd_run emit_simps
        new_events_def calls_append split: option.splits if_splits)
qed

theorem cwd_strategies_in_order_witness:
  "cwd (fs_host [''/ws/proj/Cargo.toml''] (Some ''/ws/proj/src/lib.rs'') (Some ''/ws'')) initial =
     (Inr (Some ''/ws/proj''),
      \<lparr>previousCwd = Some ''/ws/proj'',
       trace = [Call ''getCwdFromActiveTextEditor'', FindUp ''Cargo.toml'' ''/ws/proj/src'',
                Assign_previousCwd ''/ws/proj'']\<rparr>)
   \<and> cwd (fs_host [''/ws/proj/Cargo.toml''] (Some ''/ws/other.rs'') (Some ''/ws''))
       (remembering ''/ws/proj'') =
     (Inr (Some ''/ws/proj''),
      \<lparr>previousCwd = Some ''/ws/proj'',
       trace = [Call ''getCwdFromActiveTextEditor'', FindUp ''Cargo.toml'' ''/ws'',
                Call ''getPreviousCwd'', FsAccess ''/ws/proj/Cargo.toml'']\<rparr>)
   \<and> cwd (fs_host [''/ws/Cargo.toml''] None (Some ''/ws'')) initial =
     (Inr (Some ''/ws''),
      \<lparr>previousCwd = None,
       trace = [Call ''getCwdFromActiveTextEditor'', Call ''getPreviousCwd'',
                Call ''checkWorkspaceCanBeUsedAsCwd'', FsAccess ''/ws/Cargo.toml'']\<rparr>)
   \<and> cwd (fs_host [] None None) initial =
     (Inl TypeError,
      \<lparr>previousCwd = None,
       trace = [Call ''getCwdFromActiveTextEditor'', Call ''getPreviousCwd'',
                Call ''checkWorkspaceCanBeUsedAsCwd'']\<rparr>)"
proof -
  let ?h1 = "fs_host [''/ws/proj/Cargo.toml''] (Some ''/ws/proj/src/lib.rs'') (Some ''/ws'')"
  let ?h2 = "fs_host [''/ws/proj/Cargo.toml''] (Some ''/ws/other.rs'') (Some ''/ws'')"
  let ?h3 = "fs_host [''/ws/Cargo.toml''] None (Some ''/ws'')"
  let ?h4 = "fs_host [] None None"
  let ?a = "\<lparr>previousCwd = None,
             trace = [Call ''getCwdFromActiveTextEditor'', FindUp ''Cargo.toml'' ''/ws/proj/src'']\<rparr>"
  let ?b1 = "\<lparr>previousCwd = Some ''/ws/proj'',
              trace = [Call ''getCwdFromActiveTextEditor'', FindUp ''Cargo.toml'' ''/ws'']\<rparr>"
  let ?b2 = "\<lparr>previousCwd = Some ''/ws/proj'',
              trace = [Call ''getCwdFromActiveTextEditor'', FindUp ''Cargo.toml'' ''/ws'',
                       Call ''getPreviousCwd'', FsAccess ''/ws/proj/Cargo.toml'']\<rparr>"
  let ?c1 = "\<lparr>previousCwd = None, trace = [Call ''getCwdFromActiveTextEditor'']\<rparr>"
  let ?c2 = "\<lparr>previousCwd = None,
              trace = [Call ''getCwdFromActiveTextEditor'', Call ''getPreviousCwd'']\<rparr>"
  let ?c3 = "\<lparr>previousCwd = None,
              trace = [Call ''getCwdFromActiveTextEditor'', Call ''getPreviousCwd'',
                       Call ''checkWorkspaceCanBeUsedAsCwd'', FsAccess ''/ws/Cargo.toml'']\<rparr>"
  let ?d3 = "\<lparr>previousCwd = None,
              trace = [Call ''getCwdFromActiveTextEditor'', Call ''getPreviousCwd'',
                       Call ''checkWorkspaceCanBeUsedAsCwd'']\<rparr>"
  have a: "getCwdFromActiveTextEditor ?h1 initial = (Inr ''/ws/proj'', ?a)"
    by code_simp
  have b: "getCwdFromActiveTextEditor ?h2 (remembering ''/ws/proj'') =
             (Inl (Error ''Cargo.toml hasn't been found''), ?b1)
           \<and> getPreviousCwd ?h2 (Error ''Cargo.toml hasn't been found'') ?b1 =
               (Inr (Some ''/ws/proj''), ?b2)"
    by code_simp
  have c: "getCwdFromActiveTextEditor ?h3 initial = (Inl (Error ''No active document''), ?c1)
           \<and> getPreviousCwd ?h3 (Error ''No active document'') ?c1 =
               (Inl (Error ''No active document''), ?c2)
           \<and> checkWorkspaceCanBeUsedAsCwd ?h3 ?c2 = (Inr True, ?c3)"
    by code_simp
  have d: "getCwdFromActiveTextEditor ?h4 initial = (Inl (Error ''No active document''), ?c1)
           \<and> getPreviousCwd ?h4 (Error ''No active document'') ?c1 =
               (Inl (Error ''No active document''), ?c2)
           \<and> checkWorkspaceCanBeUsedAsCwd ?h4 ?c2 = (Inl TypeError, ?d3)"
    by code_simp
  note order = cwd_strategies_in_order
  from order [THEN conjunct1, rule_format, OF a]
    order [THEN conjunct2, THEN conjunct1, rule_format, OF b]
    order [THEN conjunct2, THEN conjunct2, THEN conjunct1, rule_format, OF c]
    order [THEN conjunct2, THEN conjunct2, THEN conjunct2, rule_format, OF d]
  show ?thesis
    by (simp add: emit_def fs_host_def)
qed

subsection \<open>C2: the error of a failed resolution\<close>

lemma cwd_rejection:
  assumes "fst (cwd h s) = Inl err"
  shows "fst (getCwdFromActiveTextEditor h s) = Inl err \<or>
         (rootPath h = None \<and> err = TypeError \<and> (\<exists>e. fst (getCwdFromActiveTextEditor h s) = Inl e))"
proof (cases "rootPath h")
  case None
  with assms show ?thesis
    by (auto simp: cwd_run getPreviousCwd_run checkWorkspaceCanBeUsedAsCwd_run
        split: prod.splits sum.splits option.splits if_splits)
next
  case (Some root)
  with assms show ?thesis
    by (auto simp: cwd_run getPreviousCwd_run checkWorkspaceCanBeUsedAsCwd_run
        split: prod.splits sum.splits option.splits if_splits)
qed

lemma cwd_rejection_strategy1:
  "fst (cwd h s) = Inl err \<Longrightarrow> \<exists>e. fst (getCwdFromActiveTextEditor h s) = Inl e"
  using cwd_rejection [of h s err] by blast

lemma cwd_rejection_with_root:
  "rootPath h = Some root \<Longrightarrow> fst (cwd h s) = Inl err \<Longrightarrow>
     fst (getCwdFromActiveTextEditor h s) = Inl err"
  using cwd_rejection [of h s err] by auto

lemma getCwdFromActiveTextEditor_errors:
  "fst (getCwdFromActiveTextEditor h s) = Inl err \<Longrightarrow>
     err \<in> set [Error ''No active document'', Error ''Current document not in the workspace'',
                Error ''Cargo.toml hasn't been found'',
                Error ''Cargo.toml hasn't been found within the workspace'']"
  by (auto simp: getCwdFromActiveTextEditor_run findCargoTomlUpToWorkspace_run
      split: option.splits if_splits)

lemma cwd_without_root:
  assumes "rootPath h = None"
    and "fst (getCwdFromActiveTextEditor h s) = Inl e"
    and "previousCwd s = None \<or>
         (\<exists>prev. previousCwd s = Some prev \<and> fs_access h (path_join h prev ''Cargo.toml'') \<noteq> None)"
  shows "fst (cwd h s) = Inl TypeError"
proof -
  obtain s1 where a: "getCwdFromActiveTextEditor h s = (Inl e, s1)"
    using assms(2) by (cases "getCwdFromActiveTextEditor h s") simp
  from getCwdFromActiveTextEditor_frame [OF a] have "previousCwd s1 = previousCwd s"
    by simp
  with a assms(1,3) show ?thesis
    by (auto simp: cwd_run getPreviousCwd_run checkWorkspaceCanBeUsedAsCwd_run emit_simps
        split: option.splits)
qed

text \<open>
  Claim C2. Whenever \<open>cwd\<close> fails, whether the remembered-root strategy was skipped
  because no root is remembered, or the remembered root has lost its marker, or the
  workspace root has no marker, the rejection carries exactly the error of the
  active-document strategy, never one made by the second or third strategy.

  The code keeps this only while a folder is open (\<open>cwd_rejection_with_root\<close>). In a
  window without a folder \<open>vscode.workspace.rootPath\<close> is undefined, and
  \<open>checkWorkspaceCanBeUsedAsCwd\<close> hands it to \<open>path.join\<close>, which throws: whenever the
  first two strategies fail there, \<open>cwd\<close> rejects with that \<open>TypeError\<close>
  (\<open>cwd_without_root\<close>) and the error of the first strategy is lost. The theorem runs
  the call with no folder open, no active editor and nothing remembered: the first
  strategy rejects with \<open>No active document\<close>, \<open>cwd\<close> with the \<open>TypeError\<close> of the
  third.
\<close>

theorem cwd_without_root_rejects_with_TypeError:
  "fst (getCwdFromActiveTextEditor (fs_host [] None None) initial) =
     Inl (Error ''No active document'')
   \<and> cwd (fs_host [] None None) initial =
     (Inl TypeError,
      \<lparr>previousCwd = None,
       trace = [Call ''getCwdFromActiveTextEditor'', Call ''getPreviousCwd'',
                Call ''checkWorkspaceCanBeUsedAsCwd'']\<rparr>)"
  by code_simp

subsection \<open>C3: who writes \<open>previousCwd\<close>\<close>

lemma getPreviousCwd_frame:
  "previousCwd (snd (getPreviousCwd h e s)) = previousCwd s \<and>
   assignments (new_events s (snd (getPreviousCwd h e s))) = []"
  by (simp add: getPreviousCwd_run emit_simps new_events_def split: option.split)

lemma checkWorkspaceCanBeUsedAsCwd_frame:
  "previousCwd (snd (checkWorkspaceCanBeUsedAsCwd h s)) = previousCwd s \<and>
   assignments (new_events s (snd (checkWorkspaceCanBeUsedAsCwd h s))) = []"
  by (simp add: checkWorkspaceCanBeUsedAsCwd_run emit_simps new_events_def split: option.split)

lemma cwd_previousCwd_success:
  assumes "fst (getCwdFromActiveTextEditor h s) = Inr d"
  shows "previousCwd (snd (cwd h s)) = Some d \<and> assignments (new_events s (snd (cwd h s))) = [d]"
    and "fst (cwd h s) = Inr (Some d)"
proof -
  obtain s1 where a: "getCwdFromActiveTextEditor h s = (Inr d, s1)"
    using assms by (cases "getCwdFromActiveTextEditor h s") simp
  from getCwdFromActiveTextEditor_frame [OF a] a
  show "previousCwd (snd (cwd h s)) = Some d \<and> assignments (new_events s (snd (cwd h s))) = [d]"
    by (auto simp: cwd_run emit_simps new_events_def assignments_append)
  from a show "fst (cwd h s) = Inr (Some d)"
    by (simp add: cwd_run)
qed

lemma cwd_previousCwd_failure:
  assumes "fst (getCwdFromActiveTextEditor h s) = Inl e"
  shows "previousCwd (snd (cwd h s)) = previousCwd s \<and> assignments (new_events s (snd (cwd h s))) = []"
proof -
  obtain s1 where a: "getCwdFromActiveTextEditor h s = (Inl e, s1)"
    using assms by (cases "getCwdFromActiveTextEditor h s") simp
  from getCwdFromActiveTextEditor_frame [OF a] a show ?thesis
    by (auto simp: cwd_run getPreviousCwd_run checkWorkspaceCanBeUsedAsCwd_run emit_simps
        new_events_def assignments_append split: option.splits)
qed

text \<open>
  Claim C3. A call of \<open>cwd\<close> writes \<open>previousCwd\<close> exactly when the active-document
  strategy succeeds, and then with the directory that strategy returned; the
  remembered-root strategy, the workspace-root strategy and every failing call leave it
  unchanged; it is never cleared, only overwritten.

  Both the field after the call and the assignments logged during the call are given:
  one assignment of the returned directory when \<open>getCwdFromActiveTextEditor\<close> resolves,
  none when it rejects, none by \<open>getPreviousCwd\<close> and \<open>checkWorkspaceCanBeUsedAsCwd\<close>
  run on their own, and a field that was set stays set.
\<close>

theorem previousCwd_written_only_on_active_editor_success:
  "(fst (getCwdFromActiveTextEditor h s) = Inr d \<longrightarrow>
      previousCwd (snd (cwd h s)) = Some d \<and>
      assignments (new_events s (snd (cwd h s))) = [d])
   \<and> (fst (getCwdFromActiveTextEditor h s) = Inl e \<longrightarrow>
      previousCwd (snd (cwd h s)) = previousCwd s \<and>
      assignments (new_events s (snd (cwd h s))) = [])
   \<and> (fst (cwd h s) = Inl e \<longrightarrow>
      previousCwd (snd (cwd h s)) = previousCwd s \<and>
      assignments (new_events s (snd (cwd h s))) = [])
   \<and> previousCwd (snd (getPreviousCwd h e s)) = previousCwd s
   \<and> assignments (new_events s (snd (getPreviousCwd h e s))) = []
   \<and> previousCwd (snd (checkWorkspaceCanBeUsedAsCwd h s)) = previousCwd s
   \<and> assignments (new_events s (snd (checkWorkspaceCanBeUsedAsCwd h s))) = []
   \<and> (previousCwd s \<noteq> None \<longrightarrow> previousCwd (snd (cwd h s)) \<noteq> None)"
proof -
  have never_cleared: "previousCwd (snd (cwd h s)) \<noteq> None" if "previousCwd s \<noteq> None"
  proof (cases "fst (getCwdFromActiveTextEditor h s)")
    case (Inl e0)
    with cwd_previousCwd_failure [of h s e0] that show ?thesis by simp
  next
    case (Inr d0)
    with cwd_previousCwd_success(1) [of h s d0] show ?thesis by simp
  qed
  have failing: "previousCwd (snd (cwd h s)) = previousCwd s \<and>
      assignments (new_events s (snd (cwd h s))) = []" if "fst (cwd h s) = Inl e"
  proof -
    from cwd_rejection_strategy1 [OF that] obtain e0
      where "fst (getCwdFromActiveTextEditor h s) = Inl e0" ..
    then show ?thesis
      by (rule cwd_previousCwd_failure)
  qed
  show ?thesis
    using cwd_previousCwd_success(1) [of h s d] cwd_previousCwd_failure [of h s e]
      failing getPreviousCwd_frame [of h e s]
      checkWorkspaceCanBeUsedAsCwd_frame [of h s] never_cleared
    by blast
qed

theorem previousCwd_written_only_on_active_editor_success_witness:
  "previousCwd (snd (cwd (fs_host [''/ws/proj/Cargo.toml''] (Some ''/ws/proj/src/lib.rs'') (Some ''/ws''))
                      (remembering ''/ws/old''))) = Some ''/ws/proj''
   \<and> assignments (new_events (remembering ''/ws/old'')
        (snd (cwd (fs_host [''/ws/proj/Cargo.toml''] (Some ''/ws/proj/src/lib.rs'') (Some ''/ws''))
               (remembering ''/ws/old'')))) = [''/ws/proj'']
   \<and> previousCwd (snd (cwd (fs_host [''/ws/proj/Cargo.toml''] None (Some ''/ws''))
                          (remembering ''/ws/proj''))) = Some ''/ws/proj''
   \<and> assignments (new_events (remembering ''/ws/proj'')
        (snd (cwd (fs_host [''/ws/proj/Cargo.toml''] None (Some ''/ws''))
               (remembering ''/ws/proj'')))) = []
   \<and> previousCwd (snd (cwd (fs_host [] None (Some ''/ws'')) (remembering ''/gone''))) = Some ''/gone''
   \<and> assignments (new_events (remembering ''/gone'')
        (snd (cwd (fs_host [] None (Some ''/ws'')) (remembering ''/gone'')))) = []"
proof -
  let ?h1 = "fs_host [''/ws/proj/Cargo.toml''] (Some ''/ws/proj/src/lib.rs'') (Some ''/ws'')"
  let ?h2 = "fs_host [''/ws/proj/Cargo.toml''] None (Some ''/ws'')"
  let ?h3 = "fs_host [] None (Some ''/ws'')"
  have a: "fst (getCwdFromActiveTextEditor ?h1 (remembering ''/ws/old'')) = Inr ''/ws/proj''"
    by code_simp
  have b: "fst (getCwdFromActiveTextEditor ?h2 (remembering ''/ws/proj'')) =
             Inl (Error ''No active document'')"
    by code_simp
  have c: "fst (cwd ?h3 (remembering ''/gone'')) = Inl (Error ''No active document'')"
    by code_simp
  have d: "previousCwd (remembering ''/gone'') \<noteq> None"
    by (simp add: remembering_def)
  from previousCwd_written_only_on_active_editor_success
         [THEN conjunct1, rule_format, OF a]
       previousCwd_written_only_on_active_editor_success
         [THEN conjunct2, THEN conjunct1, rule_format, OF b]
       previousCwd_written_only_on_active_editor_success
         [THEN conjunct2, THEN conjunct2, THEN conjunct1, rule_format, OF c]
       previousCwd_written_only_on_active_editor_success
         [of ?h3 "remembering ''/gone''", THEN conjunct2, THEN conjunct2, THEN conjunct2,
          THEN conjunct2, THEN conjunct2, THEN conjunct2, THEN conjunct2, rule_format, OF d]
  show ?thesis
    by (simp add: remembering_def)
qed

subsection \<open>C4: the checks of the active-document strategy\<close>

lemma getCwdFromActiveTextEditor_events:
  "new_events s (snd (getCwdFromActiveTextEditor h s)) =
     Call ''getCwdFromActiveTextEditor'' #
     (case activeTextEditor h of
        None \<Rightarrow> []
      | Some fileName \<Rightarrow>
          if startsWith fileName (ToString (rootPath h))
          then [FindUp ''Cargo.toml'' (path_dirname h fileName)] else [])"
  by (simp add: getCwdFromActiveTextEditor_run findCargoTomlUpToWorkspace_run emit_simps
      new_events_def split: option.split)

lemma cwd_after_rejection:
  assumes "fst (getCwdFromActiveTextEditor h s) = Inl e"
  shows "take 2 (calls (new_events s (snd (cwd h s)))) =
           [''getCwdFromActiveTextEditor'', ''getPreviousCwd'']"
    and "rootPath h = Some root \<Longrightarrow> fs_access h (path_join h root ''Cargo.toml'') = None \<Longrightarrow>
           \<exists>d. fst (cwd h s) = Inr (Some d)"
proof -
  obtain s1 where a: "getCwdFromActiveTextEditor h s = (Inl e, s1)"
    using assms by (cases "getCwdFromActiveTextEditor h s") simp
  from getCwdFromActiveTextEditor_frame [OF a] a
  show "take 2 (calls (new_events s (snd (cwd h s)))) =
           [''getCwdFromActiveTextEditor'', ''getPreviousCwd'']"
    by (auto simp: cwd_run getPreviousCwd_run checkWorkspaceCanBeUsedAsCwd_run emit_simps
        new_events_def calls_append split: option.splits)
  from a show "\<exists>d. fst (cwd h s) = Inr (Some d)"
    if "rootPath h = Some root" and "fs_access h (path_join h root ''Cargo.toml'') = None"
    using that
    by (auto simp: cwd_run getPreviousCwd_run checkWorkspaceCanBeUsedAsCwd_run
        split: option.splits)
qed

text \<open>
  Claim C4. The active-document strategy checks, in this order: (1) there is an active
  document, else it fails with "no active document"; (2) the document's path lies within
  the workspace root by a prefix check, else "document outside workspace"; (3) the upward
  search from the document's directory finds a marker, else "marker not found"; (4) the
  found location lies within the workspace root, else "marker found outside workspace".
  Each failure fails this strategy only, not the whole chain.

  The four reasons are the messages \<open>No active document\<close>,
  \<open>Current document not in the workspace\<close>, \<open>Cargo.toml hasn't been found\<close> and
  \<open>Cargo.toml hasn't been found within the workspace\<close>. The order shows in what each
  case assumes and in what it logs: a missing editor decides alone; a path that fails the
  prefix test decides whatever the search would find, and no search is made; the search
  runs once, from \<open>path.dirname(fileName)\<close>, only after both; the location tested last
  is the path \<open>findUp\<close> returned. The last case is the chain going on: after a
  rejection \<open>cwd\<close> enters \<open>getPreviousCwd\<close> next, and resolves whenever the workspace
  root holds a \<open>Cargo.toml\<close>.
\<close>

theorem getCwdFromActiveTextEditor_checks_in_order:
  "(activeTextEditor h = None \<longrightarrow>
      fst (getCwdFromActiveTextEditor h s) = Inl (Error ''No active document'') \<and>
      new_events s (snd (getCwdFromActiveTextEditor h s)) = [Call ''getCwdFromActiveTextEditor''])
   \<and> (activeTextEditor h = Some fileName \<and> \<not> startsWith fileName (ToString (rootPath h)) \<longrightarrow>
      fst (getCwdFromActiveTextEditor h s) = Inl (Error ''Current document not in the workspace'') \<and>
      new_events s (snd (getCwdFromActiveTextEditor h s)) = [Call ''getCwdFromActiveTextEditor''])
   \<and> (activeTextEditor h = Some fileName \<and> startsWith fileName (ToString (rootPath h)) \<and>
       findUp h ''Cargo.toml'' (path_dirname h fileName) = None \<longrightarrow>
      fst (getCwdFromActiveTextEditor h s) = Inl (Error ''Cargo.toml hasn't been found'') \<and>
      new_events s (snd (getCwdFromActiveTextEditor h s)) =
        [Call ''getCwdFromActiveTextEditor'', FindUp ''Cargo.toml'' (path_dirname h fileName)])
   \<and> (activeTextEditor h = Some fileName \<and> startsWith fileName (ToString (rootPath h)) \<and>
       findUp h ''Cargo.toml'' (path_dirname h fileName) = Some p \<and>
       \<not> startsWith p (ToString (rootPath h)) \<longrightarrow>
      fst (getCwdFromActiveTextEditor h s) =
        Inl (Error ''Cargo.toml hasn't been found within the workspace'') \<and>
      new_events s (snd (getCwdFromActiveTextEditor h s)) =
        [Call ''getCwdFromActiveTextEditor'', FindUp ''Cargo.toml'' (path_dirname h fileName)])
   \<and> (activeTextEditor h = Some fileName \<and> startsWith fileName (ToString (rootPath h)) \<and>
       findUp h ''Cargo.toml'' (path_dirname h fileName) = Some p \<and>
       startsWith p (ToString (rootPath h)) \<longrightarrow>
      fst (getCwdFromActiveTextEditor h s) = Inr (path_dirname h p) \<and>
      new_events s (snd (getCwdFromActiveTextEditor h s)) =
        [Call ''getCwdFromActiveTextEditor'', FindUp ''Cargo.toml'' (path_dirname h fileName)])
   \<and> (fst (getCwdFromActiveTextEditor h s) = Inl e \<longrightarrow>
      take 2 (calls (new_events s (snd (cwd h s)))) =
        [''getCwdFromActiveTextEditor'', ''getPreviousCwd''] \<and>
      (rootPath h = Some root \<and> fs_access h (path_join h root ''Cargo.toml'') = None \<longrightarrow>
         (\<exists>d. fst (cwd h s) = Inr (Some d))))"
proof -
  have "fst (getCwdFromActiveTextEditor h s) = Inl e \<longrightarrow>
      take 2 (calls (new_events s (snd (cwd h s)))) =
        [''getCwdFromActiveTextEditor'', ''getPreviousCwd''] \<and>
      (rootPath h = Some root \<and> fs_access h (path_join h root ''Cargo.toml'') = None \<longrightarrow>
         (\<exists>d. fst (cwd h s) = Inr (Some d)))"
    using cwd_after_rejection(1) [of h s e] cwd_after_rejection(2) [of h s e root] by blast
  then show ?thesis
    by (simp add: getCwdFromActiveTextEditor_events)
      (simp add: getCwdFromActiveTextEditor_run findCargoTomlUpToWorkspace_run)
qed


theorem getCwdFromActiveTextEditor_checks_in_order_witness:
  "fst (getCwdFromActiveTextEditor (fs_host [''/ws/Cargo.toml''] None (Some ''/ws'')) initial) =
     Inl (Error ''No active document'')
   \<and> fst (getCwdFromActiveTextEditor
            (fs_host [''/Cargo.toml''] (Some ''/other/src/main.rs'') (Some ''/ws'')) initial) =
     Inl (Error ''Current document not in the workspace'')
   \<and> fst (getCwdFromActiveTextEditor (fs_host [] (Some ''/ws/src/main.rs'') (Some ''/ws'')) initial) =
     Inl (Error ''Cargo.toml hasn't been found'')
   \<and> fst (getCwdFromActiveTextEditor
            (fs_host [''/Cargo.toml''] (Some ''/ws/src/main.rs'') (Some ''/ws'')) initial) =
     Inl (Error ''Cargo.toml hasn't been found within the workspace'')
   \<and> fst (getCwdFromActiveTextEditor
            (fs_host [''/ws/proj/Cargo.toml''] (Some ''/ws/proj/src/lib.rs'') (Some ''/ws'')) initial) =
     Inr ''/ws/proj''
   \<and> (\<exists>d. fst (cwd (fs_host [''/ws/Cargo.toml''] None (Some ''/ws'')) initial) = Inr (Some d))"
proof -
  let ?h1 = "fs_host [''/ws/Cargo.toml''] None (Some ''/ws'')"
  let ?h2 = "fs_host [''/Cargo.toml''] (Some ''/other/src/main.rs'') (Some ''/ws'')"
  let ?h3 = "fs_host [] (Some ''/ws/src/main.rs'') (Some ''/ws'')"
  let ?h4 = "fs_host [''/Cargo.toml''] (Some ''/ws/src/main.rs'') (Some ''/ws'')"
  let ?h5 = "fs_host [''/ws/proj/Cargo.toml''] (Some ''/ws/proj/src/lib.rs'') (Some ''/ws'')"
  have a: "activeTextEditor ?h1 = None"
    by code_simp
  have b: "activeTextEditor ?h2 = Some ''/other/src/main.rs'' \<and>
           \<not> startsWith ''/other/src/main.rs'' (ToString (rootPath ?h2))"
    by code_simp
  have c: "activeTextEditor ?h3 = Some ''/ws/src/main.rs'' \<and>
           startsWith ''/ws/src/main.rs'' (ToString (rootPath ?h3)) \<and>
           findUp ?h3 ''Cargo.toml'' (path_dirname ?h3 ''/ws/src/main.rs'') = None"
    by code_simp
  have d: "activeTextEditor ?h4 = Some ''/ws/src/main.rs'' \<and>
           startsWith ''/ws/src/main.rs'' (ToString (rootPath ?h4)) \<and>
           findUp ?h4 ''Cargo.toml'' (path_dirname ?h4 ''/ws/src/main.rs'') = Some ''/Cargo.toml'' \<and>
           \<not> startsWith ''/Cargo.toml'' (ToString (rootPath ?h4))"
    by code_simp
  have e: "activeTextEditor ?h5 = Some ''/ws/proj/src/lib.rs'' \<and>
           startsWith ''/ws/proj/src/lib.rs'' (ToString (rootPath ?h5)) \<and>
           findUp ?h5 ''Cargo.toml'' (path_dirname ?h5 ''/ws/proj/src/lib.rs'') =
             Some ''/ws/proj/Cargo.toml'' \<and>
           startsWith ''/ws/proj/Cargo.toml'' (ToString (rootPath ?h5))"
    by code_simp
  have f: "fst (getCwdFromActiveTextEditor ?h1 initial) = Inl (Error ''No active document'')"
    by code_simp
  have g: "rootPath ?h1 = Some ''/ws'' \<and> fs_access ?h1 (path_join ?h1 ''/ws'' ''Cargo.toml'') = None"
    by code_simp
  have dir: "path_dirname ?h5 ''/ws/proj/Cargo.toml'' = ''/ws/proj''"
    by code_simp
  note checks = getCwdFromActiveTextEditor_checks_in_order
  from checks [THEN conjunct1, rule_format, OF a]
    checks [THEN conjunct2, THEN conjunct1, rule_format, OF b]
    checks [THEN conjunct2, THEN conjunct2, THEN conjunct1, rule_format, OF c]
    checks [THEN conjunct2, THEN conjunct2, THEN conjunct2, THEN conjunct1, rule_format, OF d]
    checks [THEN conjunct2, THEN conjunct2, THEN conjunct2, THEN conjunct2, THEN conjunct1,
         rule_format, OF e]
    checks [THEN conjunct2, THEN conjunct2, THEN conjunct2, THEN conjunct2, THEN conjunct2,
         rule_format, OF f, THEN conjunct2, rule_format, OF g]
    dir
  show ?thesis
    by simp
qed

subsection \<open>C5: the remembered-root strategy\<close>

text \<open>
  Claim C5. Run with a remembered root, the remembered-root strategy only checks that the
  marker file exists directly inside the remembered directory (no upward search); on
  success it returns the remembered directory as stored, without deriving it again and
  without writing \<open>previousCwd\<close>.

  With \<open>previousCwd = d\<close> the whole run is given: it resolves with \<open>d\<close> when
  \<open>fs.access\<close> of \<open>path.join(d, 'Cargo.toml')\<close> reports no error and rejects with the
  error it was handed otherwise; the state is the one it started from, with the method
  entry and that single access added to the log (no \<open>FindUp\<close>, no assignment).
\<close>

theorem getPreviousCwd_direct_check_only:
  assumes "previousCwd s = Some d"
  shows "getPreviousCwd h err s =
           (if fs_access h (path_join h d ''Cargo.toml'') = None then Inr (Some d) else Inl err,
            s\<lparr>trace := trace s @ [Call ''getPreviousCwd'', FsAccess (path_join h d ''Cargo.toml'')]\<rparr>)"
  using assms by (simp add: getPreviousCwd_run emit_def)

theorem getPreviousCwd_direct_check_only_witness:
  "getPreviousCwd (fs_host [''/ws/proj/Cargo.toml''] None (Some ''/ws'')) (Error ''No active document'')
     (remembering ''/ws/proj'') =
     (Inr (Some ''/ws/proj''),
      \<lparr>previousCwd = Some ''/ws/proj'',
       trace = [Call ''getPreviousCwd'', FsAccess ''/ws/proj/Cargo.toml'']\<rparr>)
   \<and> getPreviousCwd (fs_host [''/ws/Cargo.toml''] None (Some ''/ws'')) (Error ''No active document'')
     (remembering ''/ws/proj'') =
     (Inl (Error ''No active document''),
      \<lparr>previousCwd = Some ''/ws/proj'',
       trace = [Call ''getPreviousCwd'', FsAccess ''/ws/proj/Cargo.toml'']\<rparr>)"
proof -
  have a: "previousCwd (remembering ''/ws/proj'') = Some ''/ws/proj''"
    by (simp add: remembering_def)
  from getPreviousCwd_direct_check_only
         [OF a, of "fs_host [''/ws/proj/Cargo.toml''] None (Some ''/ws'')" "Error ''No active document''"]
       getPreviousCwd_direct_check_only
         [OF a, of "fs_host [''/ws/Cargo.toml''] None (Some ''/ws'')" "Error ''No active document''"]
  show ?thesis
    by (simp add: remembering_def fs_host_def posix_join_def)
qed

subsection \<open>C6: the workspace root as the last resort\<close>

text \<open>
  Claim C6. With no active document, no remembered root and the marker file directly
  inside the workspace root, \<open>cwd\<close> succeeds and returns the workspace root path.
\<close>

theorem cwd_workspace_root_fallback:
  assumes "activeTextEditor h = None"
    and "previousCwd s = None"
    and "rootPath h = Some root"
    and "fs_access h (path_join h root ''Cargo.toml'') = None"
  shows "fst (cwd h s) = Inr (Some root)"
  using assms
  by (simp add: cwd_run getCwdFromActiveTextEditor_run getPreviousCwd_run
      checkWorkspaceCanBeUsedAsCwd_run emit_simps)

theorem cwd_workspace_root_fallback_witness:
  "fst (cwd (fs_host [''/ws/Cargo.toml''] None (Some ''/ws'')) initial) = Inr (Some ''/ws'')"
proof -
  let ?h = "fs_host [''/ws/Cargo.toml''] None (Some ''/ws'')"
  have a: "activeTextEditor ?h = None"
    by code_simp
  have b: "previousCwd initial = None"
    by code_simp
  have c: "rootPath ?h = Some ''/ws''"
    by code_simp
  have d: "fs_access ?h (path_join ?h ''/ws'' ''Cargo.toml'') = None"
    by code_simp
  from cwd_workspace_root_fallback [OF a b c d] show ?thesis
    by (simp add: fs_host_def)
qed

subsection \<open>C7: two successes in a row\<close>

text \<open>
  Claim C7. If the active-document strategy succeeds twice in a row, with the same active
  document and the same file system, both calls return the same directory, and afterwards
  \<open>previousCwd\<close> is that directory.

  The same host \<open>h\<close> serves both calls; the second call starts in the state the first
  one left.
\<close>

theorem cwd_twice_same_directory:
  assumes "cwd h s = (r1, s1)"
    and "cwd h s1 = (r2, s2)"
    and "fst (getCwdFromActiveTextEditor h s) = Inr d1"
    and "fst (getCwdFromActiveTextEditor h s1) = Inr d2"
  shows "r1 = Inr (Some d1) \<and> r2 = Inr (Some d1) \<and> d2 = d1 \<and>
         previousCwd s1 = Some d1 \<and> previousCwd s2 = Some d1"
proof -
  from assms(3,4) getCwdFromActiveTextEditor_result [of h s s1] have same: "d2 = d1"
    by simp
  from assms(1,3) have first: "r1 = Inr (Some d1)"
    by (auto simp: cwd_run split: prod.splits sum.splits)
  from assms(2,4) have second: "r2 = Inr (Some d2)"
    by (auto simp: cwd_run split: prod.splits sum.splits)
  from cwd_previousCwd_success(1) [OF assms(3)] assms(1) have "previousCwd s1 = Some d1"
    by simp
  moreover from cwd_previousCwd_success(1) [OF assms(4)] assms(2) have "previousCwd s2 = Some d2"
    by simp
  ultimately show ?thesis
    using same first second by simp
qed

theorem cwd_twice_same_directory_witness:
  "fst (cwd (fs_host [''/ws/proj/Cargo.toml''] (Some ''/ws/proj/src/lib.rs'') (Some ''/ws'')) initial) =
     Inr (Some ''/ws/proj'')
   \<and> cwd (fs_host [''/ws/proj/Cargo.toml''] (Some ''/ws/proj/src/lib.rs'') (Some ''/ws''))
       (snd (cwd (fs_host [''/ws/proj/Cargo.toml''] (Some ''/ws/proj/src/lib.rs'') (Some ''/ws'')) initial)) =
     (Inr (Some ''/ws/proj''),
      \<lparr>previousCwd = Some ''/ws/proj'',
       trace = [Call ''getCwdFromActiveTextEditor'', FindUp ''Cargo.toml'' ''/ws/proj/src'',
                Assign_previousCwd ''/ws/proj'',
                Call ''getCwdFromActiveTextEditor'', FindUp ''Cargo.toml'' ''/ws/proj/src'',
                Assign_previousCwd ''/ws/proj'']\<rparr>)"
proof -
  let ?h = "fs_host [''/ws/proj/Cargo.toml''] (Some ''/ws/proj/src/lib.rs'') (Some ''/ws'')"
  let ?s1 = "\<lparr>previousCwd = Some ''/ws/proj'',
              trace = [Call ''getCwdFromActiveTextEditor'', FindUp ''Cargo.toml'' ''/ws/proj/src'',
                       Assign_previousCwd ''/ws/proj'']\<rparr>"
  let ?s2 = "\<lparr>previousCwd = Some ''/ws/proj'',
              trace = [Call ''getCwdFromActiveTextEditor'', FindUp ''Cargo.toml'' ''/ws/proj/src'',
                       Assign_previousCwd ''/ws/proj'',
                       Call ''getCwdFromActiveTextEditor'', FindUp ''Cargo.toml'' ''/ws/proj/src'',
                       Assign_previousCwd ''/ws/proj'']\<rparr>"
  have a: "cwd ?h initial = (Inr (Some ''/ws/proj''), ?s1)"
    by code_simp
  have b: "cwd ?h ?s1 = (Inr (Some ''/ws/proj''), ?s2)"
    by code_simp
  have c: "fst (getCwdFromActiveTextEditor ?h initial) = Inr ''/ws/proj''"
    by code_simp
  have d: "fst (getCwdFromActiveTextEditor ?h ?s1) = Inr ''/ws/proj''"
    by code_simp
  from cwd_twice_same_directory [OF a b c d] a b show ?thesis
    by simp
qed

subsection \<open>C8: the sysroot of the toolchain\<close>

lemma trim_surrounding:
  "\<exists>a b. s = a @ trim s @ b \<and> list_all is_whitespace a \<and> list_all is_whitespace b"
proof -
  let ?t = "dropWhile is_whitespace s"
  have "s = takeWhile is_whitespace s @ ?t"
    by simp
  moreover have "?t = trim s @ rev (takeWhile is_whitespace (rev ?t))"
    unfolding trim_def by (simp flip: rev_append)
  moreover have "list_all is_whitespace (takeWhile is_whitespace s)"
    by (auto simp: list_all_iff dest: set_takeWhileD)
  moreover have "list_all is_whitespace (rev (takeWhile is_whitespace (rev ?t)))"
    by (auto simp: list_all_iff dest: set_takeWhileD)
  ultimately show ?thesis
    by metis
qed

lemma trim_ends:
  assumes "trim s \<noteq> []"
  shows "\<not> is_whitespace (hd (trim s))" and "\<not> is_whitespace (last (trim s))"
proof -
  let ?t = "dropWhile is_whitespace s"
  let ?u = "dropWhile is_whitespace (rev ?t)"
  from assms have u: "?u \<noteq> []"
    by (simp add: trim_def)
  then show "\<not> is_whitespace (last (trim s))"
    unfolding trim_def by (simp add: last_rev hd_dropWhile)
  have t: "?t \<noteq> []"
  proof
    assume "?t = []"
    then have "?u = []"
      by (simp only: rev.simps dropWhile.simps)
    with u show False
      by contradiction
  qed
  have "?t = trim s @ rev (takeWhile is_whitespace (rev ?t))"
    unfolding trim_def by (simp flip: rev_append)
  with assms have "hd (trim s) = hd ?t"
    by (metis hd_append2)
  with t show "\<not> is_whitespace (hd (trim s))"
    by (simp add: hd_dropWhile)
qed
lemma fold_deliver_settled:
  "now \<noteq> Pending \<Longrightarrow> fst (fold (deliver c) evs (now, s)) = now"
proof (induction evs arbitrary: s)
  case Nil
  then show ?case by simp
next
  case (Cons ev evs)
  then show ?case
    by (cases ev)
      (simp_all add: deliver_def on_error_def on_exit_def settle_def split: option.split)
qed

lemma getRustcSysroot_first_event:
  assumes "cp_spawn h ''rustc'' [''--print'', ''sysroot''] (process_cwd h) = c"
  shows "emitted c = Ev_error # rest \<Longrightarrow> fst (getRustcSysroot h s) = Rejected"
    and "emitted c = Ev_exit code # rest \<Longrightarrow> code \<noteq> Some 0 \<Longrightarrow>
           fst (getRustcSysroot h s) = Rejected"
    and "emitted c = Ev_exit (Some 0) # rest \<Longrightarrow> stdout_read c = Some buffer \<Longrightarrow>
           fst (getRustcSysroot h s) = Resolved (trim buffer)"
    and "emitted c = [Ev_exit (Some 0)] \<Longrightarrow> stdout_read c = None \<Longrightarrow>
           getRustcSysroot h s =
             (Pending,
              s\<lparr>trace := trace s @ [Spawn ''rustc'' [''--print'', ''sysroot''] (process_cwd h),
                                     Uncaught TypeError]\<rparr>)"
  using assms
  by (simp_all add: getRustcSysroot_def Let_def deliver_def on_error_def on_exit_def settle_def
      emit_def fold_deliver_settled)

text \<open>
  Claim C8. \<open>getRustcSysroot\<close> spawns one external process. If the process cannot be
  started, or exits with a status other than zero, the promise rejects, and nothing is
  tried again; if it exits with status zero, the promise resolves with the captured
  standard output, trimmed of surrounding white space.

  The first event of the process settles the promise as the claim says
  (\<open>getRustcSysroot_first_event\<close>; what \<open>trim\<close> removes is in \<open>trim_surrounding\<close> and
  \<open>trim_ends\<close>), except in one case: the process exits with status zero and
  \<open>stdout.read()\<close> returns null because nothing is buffered. Then \<open>toString\<close> throws
  in the \<open>'exit'\<close> handler, \<open>resolve\<close> is never called and the promise stays pending.
  The theorem runs that case, and beside it the same exit with an empty buffer read,
  which resolves with the empty string.
\<close>

theorem getRustcSysroot_exit_zero_without_output_stays_pending:
  "getRustcSysroot (process_host \<lparr>emitted = [Ev_exit (Some 0)], stdout_read = None\<rparr>) initial =
     (Pending,
      \<lparr>previousCwd = None,
       trace = [Spawn ''rustc'' [''--print'', ''sysroot''] ''/'', Uncaught TypeError]\<rparr>)
   \<and> getRustcSysroot (process_host \<lparr>emitted = [Ev_exit (Some 0)], stdout_read = Some ''''\<rparr>) initial =
     (Resolved '''',
      \<lparr>previousCwd = None, trace = [Spawn ''rustc'' [''--print'', ''sysroot''] ''/'']\<rparr>)"
  by code_simp

subsection \<open>C9: "within the workspace" is a string prefix\<close>

lemma startsWith_prefix: "startsWith p w = prefix w p"
proof
  assume "startsWith p w"
  then have "p = w @ drop (length w) p"
    unfolding startsWith_def by (metis append_take_drop_id)
  then show "prefix w p"
    by (metis prefixI)
next
  assume "prefix w p"
  then show "startsWith p w"
    by (auto simp: startsWith_def prefix_def)
qed

text \<open>
  Claim C9. The two "lies within the workspace root" tests of the active-document
  strategy compare strings: a path \<open>p\<close> counts as inside the workspace \<open>w\<close> exactly
  when the string \<open>p\<close> starts with the string \<open>w\<close>. So a document in a sibling
  directory whose name extends the root's, such as one under \<open>/ws-other\<close> with the
  root \<open>/ws\<close>, is accepted as inside.

  \<open>startsWith\<close> is the prefix order on lists of characters. With an active document
  \<open>p\<close> and the root \<open>w\<close>, \<open>getCwdFromActiveTextEditor\<close> rejects with \<open>Current
  document not in the workspace\<close> exactly when \<open>w\<close> is no prefix of \<open>p\<close>; with a file
  \<open>q\<close> found, \<open>findCargoTomlUpToWorkspace\<close> rejects with \<open>Cargo.toml hasn't been
  found within the workspace\<close> exactly when \<open>w\<close> is no prefix of \<open>q\<close>. Without a
  root the string compared is \<open>undefined\<close>. The first instance is the example of the
  claim: there \<open>cwd\<close> resolves with \<open>/ws-other\<close>.
\<close>

theorem inside_workspace_is_string_prefix:
  "startsWith p w = prefix w p
   \<and> (activeTextEditor h = Some p \<and> rootPath h = Some w \<longrightarrow>
        (fst (getCwdFromActiveTextEditor h s) = Inl (Error ''Current document not in the workspace''))
          = (\<not> prefix w p))
   \<and> (findUp h ''Cargo.toml'' c = Some q \<and> rootPath h = Some w \<longrightarrow>
        (fst (findCargoTomlUpToWorkspace h c s) =
           Inl (Error ''Cargo.toml hasn't been found within the workspace''))
          = (\<not> prefix w q))
   \<and> (activeTextEditor h = Some p \<and> rootPath h = None \<longrightarrow>
        (fst (getCwdFromActiveTextEditor h s) = Inl (Error ''Current document not in the workspace''))
          = (\<not> prefix ''undefined'' p))
   \<and> (findUp h ''Cargo.toml'' c = Some q \<and> rootPath h = None \<longrightarrow>
        (fst (findCargoTomlUpToWorkspace h c s) =
           Inl (Error ''Cargo.toml hasn't been found within the workspace''))
          = (\<not> prefix ''undefined'' q))"
  by (auto simp: startsWith_prefix ToString_def getCwdFromActiveTextEditor_run
      findCargoTomlUpToWorkspace_run split: option.splits)

theorem inside_workspace_is_string_prefix_witness:
  "startsWith ''/ws-other/src/main.rs'' ''/ws''
   \<and> fst (getCwdFromActiveTextEditor
            (fs_host [''/ws-other/Cargo.toml''] (Some ''/ws-other/src/main.rs'') (Some ''/ws''))
            initial) \<noteq>
       Inl (Error ''Current document not in the workspace'')
   \<and> fst (findCargoTomlUpToWorkspace
            (fs_host [''/ws-other/Cargo.toml''] (Some ''/ws-other/src/main.rs'') (Some ''/ws''))
            ''/ws-other/src'' initial) \<noteq>
       Inl (Error ''Cargo.toml hasn't been found within the workspace'')
   \<and> fst (cwd (fs_host [''/ws-other/Cargo.toml''] (Some ''/ws-other/src/main.rs'') (Some ''/ws''))
            initial) =
       Inr (Some ''/ws-other'')
   \<and> fst (getCwdFromActiveTextEditor (fs_host [] (Some ''/ws/src/main.rs'') None) initial) =
       Inl (Error ''Current document not in the workspace'')
   \<and> fst (findCargoTomlUpToWorkspace (fs_host [''/ws/Cargo.toml''] None None) ''/ws/src'' initial) =
       Inl (Error ''Cargo.toml hasn't been found within the workspace'')"
proof -
  let ?h = "fs_host [''/ws-other/Cargo.toml''] (Some ''/ws-other/src/main.rs'') (Some ''/ws'')"
  let ?n1 = "fs_host [] (Some ''/ws/src/main.rs'') None"
  let ?n2 = "fs_host [''/ws/Cargo.toml''] None None"
  have a: "activeTextEditor ?h = Some ''/ws-other/src/main.rs'' \<and> rootPath ?h = Some ''/ws''"
    by code_simp
  have b: "findUp ?h ''Cargo.toml'' ''/ws-other/src'' = Some ''/ws-other/Cargo.toml'' \<and>
           rootPath ?h = Some ''/ws''"
    by code_simp
  have p1: "prefix ''/ws'' ''/ws-other/src/main.rs''"
    by simp
  have p2: "prefix ''/ws'' ''/ws-other/Cargo.toml''"
    by simp
  have c: "fst (cwd ?h initial) = Inr (Some ''/ws-other'')"
    by code_simp
  have d: "activeTextEditor ?n1 = Some ''/ws/src/main.rs'' \<and> rootPath ?n1 = None"
    by code_simp
  have e: "findUp ?n2 ''Cargo.toml'' ''/ws/src'' = Some ''/ws/Cargo.toml'' \<and> rootPath ?n2 = None"
    by code_simp
  have p3: "\<not> prefix ''undefined'' ''/ws/src/main.rs''"
    by simp
  have p4: "\<not> prefix ''undefined'' ''/ws/Cargo.toml''"
    by simp
  note inside = inside_workspace_is_string_prefix
  from inside [THEN conjunct1, of "''/ws-other/src/main.rs''" "''/ws''"]
    inside [THEN conjunct2, THEN conjunct1, rule_format, OF a, of initial]
    inside [THEN conjunct2, THEN conjunct2, THEN conjunct1, rule_format, OF b, of initial]
    inside [THEN conjunct2, THEN conjunct2, THEN conjunct2, THEN conjunct1, rule_format, OF d,
            of initial]
    inside [THEN conjunct2, THEN conjunct2, THEN conjunct2, THEN conjunct2, rule_format, OF e,
            of initial]
    p1 p2 p3 p4 c
  show ?thesis
    by simp
qed

subsection \<open>C10: \<open>checkPathExists\<close> always resolves\<close>

text \<open>
  Claim C10. \<open>checkPathExists\<close> is total: for every path it resolves with a boolean and
  never rejects; an error of the file-system access becomes the result false and is not
  passed on, so neither the remembered-root strategy nor the workspace-root strategy can
  fail with an I/O error of this check.

  \<open>fs.access\<close> is taken by its contract, an optional error handed to the callback.
  \<open>checkPathExists\<close> resolves with "no error", so with false on any error;
  \<open>getPreviousCwd\<close> can reject only with the error it was given;
  \<open>checkWorkspaceCanBeUsedAsCwd\<close> resolves with the outcome of the check whenever there
  is a workspace root, and rejects only without one, with the \<open>TypeError\<close> of
  \<open>path.join\<close>, before any access is made.
\<close>

theorem checkPathExists_never_rejects:
  "fst (checkPathExists h p s) = Inr (fs_access h p = None)
   \<and> (fs_access h p = Some e \<longrightarrow> fst (checkPathExists h p s) = Inr False)
   \<and> (fst (getPreviousCwd h err s) = Inl e' \<longrightarrow> e' = err)
   \<and> (rootPath h = Some root \<longrightarrow>
        fst (checkWorkspaceCanBeUsedAsCwd h s) =
          Inr (fs_access h (path_join h root ''Cargo.toml'') = None))
   \<and> (fst (checkWorkspaceCanBeUsedAsCwd h s) = Inl thrown \<longrightarrow>
        rootPath h = None \<and> thrown = TypeError)"
  by (auto simp: checkPathExists_run getPreviousCwd_run checkWorkspaceCanBeUsedAsCwd_run
      split: option.splits if_splits)

theorem checkPathExists_never_rejects_witness:
  "fst (checkPathExists (fs_host [] None (Some ''/ws'')) ''/ws/Cargo.toml'' initial) = Inr False
   \<and> fst (getPreviousCwd (fs_host [] None (Some ''/ws'')) (Error ''No active document'')
           (remembering ''/gone'')) = Inl (Error ''No active document'')
   \<and> fst (checkWorkspaceCanBeUsedAsCwd (fs_host [] None (Some ''/ws'')) initial) = Inr False
   \<and> fst (checkWorkspaceCanBeUsedAsCwd (fs_host [] None None) initial) = Inl TypeError
   \<and> rootPath (fs_host [] None None) = None"
proof -
  let ?h = "fs_host [] None (Some ''/ws'')"
  let ?n = "fs_host [] None None"
  have a: "fs_access ?h ''/ws/Cargo.toml'' = Some (Error ''ENOENT'')"
    by code_simp
  have b: "fst (getPreviousCwd ?h (Error ''No active document'') (remembering ''/gone'')) =
             Inl (Error ''No active document'')"
    by code_simp
  have c: "rootPath ?h = Some ''/ws''"
    by code_simp
  have d: "fst (checkWorkspaceCanBeUsedAsCwd ?n initial) = Inl TypeError"
    by code_simp
  note total = checkPathExists_never_rejects
  from total [THEN conjunct2, THEN conjunct1, rule_format, OF a, of initial]
    total [THEN conjunct2, THEN conjunct2, THEN conjunct1, rule_format, OF b]
    total [THEN conjunct2, THEN conjunct2, THEN conjunct2, THEN conjunct1, rule_format, OF c,
           of initial]
    total [THEN conjunct2, THEN conjunct2, THEN conjunct2, THEN conjunct2, rule_format, OF d]
    b d
  show ?thesis
    by (simp add: fs_host_def posix_join_def)
qed

end
